theory Spec2Isabelle
  imports Main "HOL-Library.Word" "HOL-Library.List_Lexorder"
begin

section \<open>Data model\<close>

text \<open>
  A JavaScript string is a sequence of UTF-16 code units; \<open>===\<close> compares the units and
  \<open><\<close> orders strings lexicographically by unit, which is the order of lists of words.
  \<open>str\<close> writes an ASCII literal as such a string.
\<close>

type_synonym jsstring = "16 word list"

definition str :: "string \<Rightarrow> jsstring" where
  "str cs = map of_char cs"

text \<open>The \<open>Todo\<close> interface of \<^verbatim>\<open>TodoList.tsx\<close> and \<^verbatim>\<open>TodoItem.tsx\<close>;
  \<open>description: string | null\<close> is an option.\<close>

record todo =
  id' :: jsstring
  title :: jsstring
  description :: "jsstring option"
  completed :: bool
  created_at :: jsstring

text \<open>The current identity supplied by \<open>useAuth\<close>; only its \<open>id\<close> is read.\<close>

record user =
  user_id :: jsstring

text \<open>What \<open>toast({title, description, variant})\<close> receives; a call that gives no
  \<open>variant\<close> is a normal notification.\<close>

datatype variant = Default | Destructive

record toast =
  toast_title :: jsstring
  toast_description :: jsstring
  variant :: variant

text \<open>The state of one mounted \<open>TodoList\<close>: its two \<open>useState\<close> cells, and the
  notifications raised so far, oldest first.\<close>

record state =
  todos :: "todo list"
  loading :: bool
  toasts :: "toast list"

definition initial :: state where
  "initial = \<lparr>todos = [], loading = True, toasts = []\<rparr>"

text \<open>The store client resolves to \<open>{data, error}\<close>: an error carrying a \<open>message\<close>, or
  no error and the data of the query (the row of \<open>.single()\<close>, nothing for an update or a
  delete; for the select, rows or \<open>null\<close>, which \<open>fetchTodos\<close> provides for).\<close>

record store_error =
  message :: jsstring

datatype 'a response = Failure store_error | Success 'a

text \<open>The calls made on the \<open>todos\<close> table: the ordered select, the insert of one row,
  the two updates (by id, with the fresh \<open>updated_at\<close>) and the delete by id.\<close>

datatype request =
    Select_desc
  | Insert jsstring jsstring "jsstring option"
  | Update_completed jsstring bool jsstring
  | Update_text jsstring jsstring "jsstring option" jsstring
  | Delete jsstring

text \<open>
  An asynchronous handler either finishes without reaching the store (\<open>Done\<close>, with what it
  did to the state), or issues one request and suspends (\<open>Await\<close>); the continuation runs
  when the response arrives, on the state the component has at that moment.
\<close>

datatype 'r task = Done "state \<Rightarrow> state" | Await request "'r \<Rightarrow> state \<Rightarrow> state"

fun issued :: "'r task \<Rightarrow> request option" where
  "issued (Done f) = None"
| "issued (Await q k) = Some q"

fun resume :: "'r task \<Rightarrow> 'r \<Rightarrow> state \<Rightarrow> state" where
  "resume (Done f) res s = f s"
| "resume (Await q k) res s = k res s"

section \<open>The list component\<close>

definition raise_toast :: "toast \<Rightarrow> state \<Rightarrow> state" where
  "raise_toast t s = s\<lparr>toasts := toasts s @ [t]\<rparr>"

definition setTodos :: "todo list \<Rightarrow> state \<Rightarrow> state" where
  "setTodos ts s = s\<lparr>todos := ts\<rparr>"

definition setLoading :: "bool \<Rightarrow> state \<Rightarrow> state" where
  "setLoading b s = s\<lparr>loading := b\<rparr>"

text \<open>\<open>description || null\<close>: the empty string is falsy.\<close>

definition or_null :: "jsstring \<Rightarrow> jsstring option" where
  "or_null d = (if d = [] then None else Some d)"

text \<open>\<open>fetchTodos\<close>: select ordered by \<open>created_at\<close> descending; \<open>data || []\<close> takes the
  empty list for a \<open>null\<close> data; the \<open>finally\<close> block clears \<open>loading\<close> on both paths.\<close>

definition fetchTodos :: "todo list option response task" where
  "fetchTodos = Await Select_desc (\<lambda>res s.
     setLoading False
       (case res of
          Failure e \<Rightarrow>
            raise_toast \<lparr>toast_title = str ''Erro ao carregar tarefas'',
                         toast_description = message e, variant = Destructive\<rparr> s
        | Success data \<Rightarrow> setTodos (case data of None \<Rightarrow> [] | Some rows \<Rightarrow> rows) s))"

text \<open>The effect on \<open>user\<close>: \<open>if (user) fetchTodos()\<close>.\<close>

definition load :: "user option \<Rightarrow> todo list option response task" where
  "load u = (case u of None \<Rightarrow> Done (\<lambda>s. s) | Some _ \<Rightarrow> fetchTodos)"

text \<open>
  \<open>addTodo\<close>, as created by a render in which \<open>useAuth\<close> gave \<open>u\<close> and the \<open>todos\<close> cell
  held \<open>captured\<close>. With no user, \<open>user!.id\<close> throws a TypeError inside the \<open>try\<close>, before
  the insert is issued; the engine's message for it is \<open>null_id_message\<close> (V8's wording).
\<close>

definition null_id_message :: jsstring where
  "null_id_message = str ''Cannot read properties of null (reading 'id')''"

definition addTodo ::
  "user option \<Rightarrow> todo list \<Rightarrow> jsstring \<Rightarrow> jsstring \<Rightarrow> todo response task" where
  "addTodo u captured ttl descr =
     (case u of
        None \<Rightarrow>
          Done (raise_toast \<lparr>toast_title = str ''Erro ao adicionar tarefa'',
                             toast_description = null_id_message, variant = Destructive\<rparr>)
      | Some usr \<Rightarrow>
          Await (Insert (user_id usr) ttl (or_null descr)) (\<lambda>res s.
            case res of
              Failure e \<Rightarrow>
                raise_toast \<lparr>toast_title = str ''Erro ao adicionar tarefa'',
                             toast_description = message e, variant = Destructive\<rparr> s
            | Success data \<Rightarrow>
                raise_toast \<lparr>toast_title = str ''Tarefa adicionada!'',
                             toast_description = str ''Sua nova tarefa foi criada com sucesso.'',
                             variant = Default\<rparr>
                  (setTodos (data # captured) s)))"

text \<open>\<open>toggleTodo\<close>; \<open>now\<close> is \<open>new Date().toISOString()\<close>. The two accented letters of
  the messages are the code units \<open>0xED\<close> and \<open>0xE9\<close>.\<close>

definition toggleTodo ::
  "jsstring \<Rightarrow> todo list \<Rightarrow> jsstring \<Rightarrow> bool \<Rightarrow> unit response task" where
  "toggleTodo now captured i c =
     Await (Update_completed i c now) (\<lambda>res s.
       case res of
         Failure e \<Rightarrow>
           raise_toast \<lparr>toast_title = str ''Erro ao atualizar tarefa'',
                        toast_description = message e, variant = Destructive\<rparr> s
       | Success _ \<Rightarrow>
           raise_toast
             \<lparr>toast_title =
                (if c then str ''Tarefa conclu'' @ [0xED] @ str ''da!''
                 else str ''Tarefa reaberta''),
              toast_description =
                (if c then str ''Parab'' @ [0xE9] @ str ''ns por concluir a tarefa!''
                 else str ''Tarefa marcada como pendente.''),
              variant = Default\<rparr>
             (setTodos (map (\<lambda>t. if id' t = i then t\<lparr>completed := c\<rparr> else t) captured) s))"

text \<open>\<open>deleteTodo\<close>.\<close>

definition deleteTodo :: "todo list \<Rightarrow> jsstring \<Rightarrow> unit response task" where
  "deleteTodo captured i =
     Await (Delete i) (\<lambda>res s.
       case res of
         Failure e \<Rightarrow>
           raise_toast \<lparr>toast_title = str ''Erro ao remover tarefa'',
                        toast_description = message e, variant = Destructive\<rparr> s
       | Success _ \<Rightarrow>
           raise_toast \<lparr>toast_title = str ''Tarefa removida'',
                        toast_description = str ''A tarefa foi removida com sucesso.'',
                        variant = Default\<rparr>
             (setTodos (filter (\<lambda>t. id' t \<noteq> i) captured) s))"

text \<open>\<open>updateTodo\<close>: the store receives \<open>description || null\<close>, the local patch the
  \<open>description\<close> argument itself (a string). \<open>0xE7\<close> and \<open>0xF5\<close> are the accented
  letters of the message.\<close>

definition updateTodo ::
  "jsstring \<Rightarrow> todo list \<Rightarrow> jsstring \<Rightarrow> jsstring \<Rightarrow> jsstring \<Rightarrow> unit response task" where
  "updateTodo now captured i ttl descr =
     Await (Update_text i ttl (or_null descr) now) (\<lambda>res s.
       case res of
         Failure e \<Rightarrow>
           raise_toast \<lparr>toast_title = str ''Erro ao atualizar tarefa'',
                        toast_description = message e, variant = Destructive\<rparr> s
       | Success _ \<Rightarrow>
           raise_toast
             \<lparr>toast_title = str ''Tarefa atualizada!'',
              toast_description =
                str ''As altera'' @ [0xE7, 0xF5] @ str ''es foram salvas com sucesso.'',
              variant = Default\<rparr>
             (setTodos
                (map (\<lambda>t. if id' t = i then t\<lparr>title := ttl, description := Some descr\<rparr> else t)
                   captured) s))"

section \<open>The form and the item\<close>

text \<open>
  \<open>String.prototype.trim\<close> removes the leading and trailing code units that are
  ECMAScript WhiteSpace or LineTerminator: TAB, LF, VT, FF, CR, SP, NBSP, U+1680,
  U+2000 to U+200A, LS, PS, U+202F, U+205F, U+3000 and U+FEFF.
\<close>

definition is_white_space :: "16 word \<Rightarrow> bool" where
  "is_white_space c \<longleftrightarrow>
     (0x9 \<le> c \<and> c \<le> 0xD) \<or> c = 0x20 \<or> c = 0xA0 \<or> c = 0x1680 \<or>
     (0x2000 \<le> c \<and> c \<le> 0x200A) \<or> c = 0x2028 \<or> c = 0x2029 \<or> c = 0x202F \<or>
     c = 0x205F \<or> c = 0x3000 \<or> c = 0xFEFF"

definition trim :: "jsstring \<Rightarrow> jsstring" where
  "trim s = rev (dropWhile is_white_space (rev (dropWhile is_white_space s)))"

text \<open>
  \<open>handleSubmit\<close> of \<^verbatim>\<open>TodoForm.tsx\<close>, with the form's \<open>title\<close> and \<open>description\<close>
  cells as arguments: \<open>None\<close> is the early return, \<open>Some\<close> the call of \<open>onSubmit\<close> it makes.
  The form's own cells (its \<open>loading\<close> flag, the inputs it clears afterwards) belong to the
  form and are not part of the list's state.
\<close>

definition handleSubmit :: "(jsstring \<Rightarrow> jsstring \<Rightarrow> 'a) \<Rightarrow> jsstring \<Rightarrow> jsstring \<Rightarrow> 'a option" where
  "handleSubmit onSubmit ttl descr =
     (if trim ttl = [] then None else Some (onSubmit ttl descr))"

text \<open>\<open>handleSaveEdit\<close>, \<open>handleToggle\<close> and \<open>handleDelete\<close> of \<^verbatim>\<open>TodoItem.tsx\<close>, for the
  item showing \<open>t\<close>; \<open>editTitle\<close> and \<open>editDescription\<close> are the item's edit cells.\<close>

definition handleSaveEdit ::
  "(jsstring \<Rightarrow> jsstring \<Rightarrow> jsstring \<Rightarrow> 'a) \<Rightarrow> todo \<Rightarrow> jsstring \<Rightarrow> jsstring \<Rightarrow> 'a option" where
  "handleSaveEdit onUpdate t editTitle editDescription =
     (if trim editTitle = [] then None else Some (onUpdate (id' t) editTitle editDescription))"

definition handleToggle :: "(jsstring \<Rightarrow> bool \<Rightarrow> 'a) \<Rightarrow> todo \<Rightarrow> 'a" where
  "handleToggle onToggle t = onToggle (id' t) (\<not> completed t)"

definition handleDelete :: "(jsstring \<Rightarrow> 'a) \<Rightarrow> todo \<Rightarrow> 'a" where
  "handleDelete onDelete t = onDelete (id' t)"

section \<open>Operations run one after the other\<close>

text \<open>
  An operation of the list, with the response its request gets. \<open>step\<close> runs it to
  completion on the current state: the handler is the one of the latest render, so it has
  captured the current \<open>todos\<close>, and nothing else happens before its response arrives.
\<close>

datatype event =
    Load "todo list option response"
  | Create jsstring jsstring "todo response"
  | Toggle jsstring jsstring bool "unit response"
  | Update jsstring jsstring jsstring jsstring "unit response"
  | Remove jsstring "unit response"

fun step :: "user option \<Rightarrow> state \<Rightarrow> event \<Rightarrow> state" where
  "step u s (Load res) = resume (load u) res s"
| "step u s (Create ttl descr res) = resume (addTodo u (todos s) ttl descr) res s"
| "step u s (Toggle now i c res) = resume (toggleTodo now (todos s) i c) res s"
| "step u s (Update now i ttl descr res) = resume (updateTodo now (todos s) i ttl descr) res s"
| "step u s (Remove i res) = resume (deleteTodo (todos s) i) res s"

definition run_all :: "user option \<Rightarrow> state \<Rightarrow> event list \<Rightarrow> state" where
  "run_all u s evs = foldl (step u) s evs"

text \<open>
  Newest first: every task is at least as late as each task after it. \<open>created_at\<close> is a
  timestamp string; \<open>instant\<close> reads the moment it denotes (the identity, if the strings
  are compared as they are).
\<close>

definition descending :: "(jsstring \<Rightarrow> 'k::linorder) \<Rightarrow> todo list \<Rightarrow> bool" where
  "descending instant ts =
     sorted_wrt (\<lambda>a b. instant (created_at b) \<le> instant (created_at a)) ts"

text \<open>What the store is assumed to give: rows in the order asked for, and to an inserted row
  a \<open>created_at\<close> no earlier than that of any task already listed.\<close>

fun store_ok :: "(jsstring \<Rightarrow> 'k::linorder) \<Rightarrow> state \<Rightarrow> event \<Rightarrow> bool" where
  "store_ok instant s (Load (Success (Some rows))) = descending instant rows"
| "store_ok instant s (Create ttl descr (Success row)) =
     list_all (\<lambda>t. instant (created_at t) \<le> instant (created_at row)) (todos s)"
| "store_ok instant s ev = True"

fun stamped :: "(jsstring \<Rightarrow> 'k::linorder) \<Rightarrow> user option \<Rightarrow> state \<Rightarrow> event list \<Rightarrow> bool" where
  "stamped instant u s [] = True"
| "stamped instant u s (ev # evs) = (store_ok instant s ev \<and> stamped instant u (step u s ev) evs)"

section \<open>Sample data\<close>

text \<open>Two tasks, a user and a state listing both tasks, for running the handlers on
  concrete input.\<close>

definition milk :: todo where
  "milk = \<lparr>id' = str ''a'', title = str ''Buy milk'', description = Some (str ''2%''),
           completed = False, created_at = str ''2024-05-02T10:00:00+00:00''\<rparr>"

definition dog :: todo where
  "dog = \<lparr>id' = str ''b'', title = str ''Walk dog'', description = None,
          completed = False, created_at = str ''2024-05-01T09:00:00+00:00''\<rparr>"

definition ana :: user where
  "ana = \<lparr>user_id = str ''u1''\<rparr>"

definition both :: state where
  "both = \<lparr>todos = [milk, dog], loading = False, toasts = []\<rparr>"

section \<open>What a resumed handler leaves in \<open>todos\<close>\<close>

lemma todos_load:
  "todos (resume (load u) res s) =
     (case (u, res) of
        (Some _, Success (Some rows)) \<Rightarrow> rows
      | (Some _, Success None) \<Rightarrow> []
      | _ \<Rightarrow> todos s)"
  by (simp add: load_def fetchTodos_def raise_toast_def setLoading_def setTodos_def
           split: option.split response.split)

lemma todos_addTodo:
  "todos (resume (addTodo u captured ttl descr) res s) =
     (case (u, res) of (Some _, Success row) \<Rightarrow> row # captured | _ \<Rightarrow> todos s)"
  by (simp add: addTodo_def raise_toast_def setTodos_def split: option.split response.split)

lemma todos_toggleTodo:
  "todos (resume (toggleTodo now captured i c) res s) =
     (case res of
        Success _ \<Rightarrow> map (\<lambda>t. if id' t = i then t\<lparr>completed := c\<rparr> else t) captured
      | Failure _ \<Rightarrow> todos s)"
  by (simp add: toggleTodo_def raise_toast_def setTodos_def split: response.split)

lemma todos_updateTodo:
  "todos (resume (updateTodo now captured i ttl descr) res s) =
     (case res of
        Success _ \<Rightarrow>
          map (\<lambda>t. if id' t = i then t\<lparr>title := ttl, description := Some descr\<rparr> else t) captured
      | Failure _ \<Rightarrow> todos s)"
  by (simp add: updateTodo_def raise_toast_def setTodos_def split: response.split)

lemma todos_deleteTodo:
  "todos (resume (deleteTodo captured i) res s) =
     (case res of Success _ \<Rightarrow> filter (\<lambda>t. id' t \<noteq> i) captured | Failure _ \<Rightarrow> todos s)"
  by (simp add: deleteTodo_def raise_toast_def setTodos_def split: response.split)

lemma patch_absent:
  "i \<notin> id' ` set ts \<Longrightarrow> map (\<lambda>t. if id' t = i then f t else t) ts = ts"
  by (induction ts) auto

lemma filter_absent: "i \<notin> id' ` set ts \<Longrightarrow> filter (\<lambda>t. id' t \<noteq> i) ts = ts"
  by (induction ts) auto

lemma filter_distinct_length:
  "distinct (map id' ts) \<Longrightarrow> i \<in> id' ` set ts \<Longrightarrow>
   Suc (length (filter (\<lambda>t. id' t \<noteq> i) ts)) = length ts"
  by (induction ts) (auto simp: filter_absent)

lemma patched_completed:
  assumes "t' \<in> set (map (\<lambda>t. if id' t = i then t\<lparr>completed := c\<rparr> else t) ts)"
      and "id' t' = i"
  shows "completed t' = c"
proof -
  from assms(1) obtain t
    where t: "t \<in> set ts" "t' = (if id' t = i then t\<lparr>completed := c\<rparr> else t)"
    by auto
  show ?thesis
  proof (cases "id' t = i")
    case True
    with t show ?thesis by simp
  next
    case False
    with t assms(2) show ?thesis by simp
  qed
qed

section \<open>Failures\<close>

text \<open>
  C1. When the insert that \<open>addTodo\<close> issues fails, the state after the handler resumes is
  the state before it with one more notification: \<open>todos\<close> is the same list, and the one
  notification added is an error notification whose description is the failure's message.
\<close>

theorem addTodo_failure:
  "issued (addTodo (Some usr) captured ttl descr) =
     Some (Insert (user_id usr) ttl (or_null descr)) \<and>
   resume (addTodo (Some usr) captured ttl descr) (Failure e) s =
     s\<lparr>toasts := toasts s @
        [\<lparr>toast_title = str ''Erro ao adicionar tarefa'', toast_description = message e,
          variant = Destructive\<rparr>]\<rparr> \<and>
   todos (resume (addTodo (Some usr) captured ttl descr) (Failure e) s) = todos s \<and>
   length (toasts (resume (addTodo (Some usr) captured ttl descr) (Failure e) s)) =
     Suc (length (toasts s))"
  by (simp add: addTodo_def raise_toast_def)

text \<open>
  C7. Without a user the effect does nothing: no request, the state as it was, so the
  initial empty list stays empty. With a user it issues the ordered select; when that
  fails, one error notification carries the failure's message, \<open>todos\<close> keeps its value
  and \<open>loading\<close> is cleared; \<open>loading\<close> is cleared whatever the response.
\<close>

theorem load_cases:
  "issued (load None) = None \<and>
   resume (load None) res s = s \<and>
   todos (resume (load None) res initial) = [] \<and>
   issued (load (Some usr)) = Some Select_desc \<and>
   resume (load (Some usr)) (Failure e) s =
     s\<lparr>loading := False,
       toasts := toasts s @
        [\<lparr>toast_title = str ''Erro ao carregar tarefas'', toast_description = message e,
          variant = Destructive\<rparr>]\<rparr> \<and>
   todos (resume (load (Some usr)) (Failure e) s) = todos s \<and>
   loading (resume (load (Some usr)) res s) = False"
  by (cases res)
    (simp_all add: load_def fetchTodos_def raise_toast_def setLoading_def setTodos_def
       initial_def)

section \<open>Toggling\<close>

text \<open>
  C3. For an id that is listed, a successful \<open>toggleTodo\<close> keeps the length of the list;
  at every position the task with that id becomes itself with \<open>completed\<close> set to the
  argument, any other task stays as it is, and \<open>id\<close>, \<open>title\<close>, \<open>description\<close> and
  \<open>created_at\<close> are the same as before; some listed task has the id and ends with
  \<open>completed\<close> equal to the argument. The notification reads "Tarefa concluida!" (with
  its accent) for \<open>True\<close> and "Tarefa reaberta" for \<open>False\<close>.
\<close>

theorem toggleTodo_success:
  assumes "i \<in> id' ` set (todos s)"
      and "s' = resume (toggleTodo now (todos s) i c) (Success ()) s"
  shows "length (todos s') = length (todos s) \<and>
         (\<forall>k < length (todos s).
            (id' (todos s ! k) = i \<longrightarrow> todos s' ! k = (todos s ! k)\<lparr>completed := c\<rparr>) \<and>
            (id' (todos s ! k) \<noteq> i \<longrightarrow> todos s' ! k = todos s ! k) \<and>
            id' (todos s' ! k) = id' (todos s ! k) \<and>
            title (todos s' ! k) = title (todos s ! k) \<and>
            description (todos s' ! k) = description (todos s ! k) \<and>
            created_at (todos s' ! k) = created_at (todos s ! k)) \<and>
         (\<exists>k < length (todos s). id' (todos s ! k) = i \<and> completed (todos s' ! k) = c) \<and>
         loading s' = loading s \<and>
         toasts s' = toasts s @
           [\<lparr>toast_title =
               (if c then str ''Tarefa conclu'' @ [0xED] @ str ''da!''
                else str ''Tarefa reaberta''),
             toast_description =
               (if c then str ''Parab'' @ [0xE9] @ str ''ns por concluir a tarefa!''
                else str ''Tarefa marcada como pendente.''),
             variant = Default\<rparr>]"
proof -
  have td: "todos s' = map (\<lambda>t. if id' t = i then t\<lparr>completed := c\<rparr> else t) (todos s)"
    by (simp add: assms(2) todos_toggleTodo)
  from assms(1) obtain k where k: "k < length (todos s)" "id' (todos s ! k) = i"
    by (auto simp: in_set_conv_nth)
  have ex: "\<exists>k < length (todos s). id' (todos s ! k) = i \<and> completed (todos s' ! k) = c"
    using k by (intro exI[of _ k]) (simp add: td)
  have rest: "loading s' = loading s \<and> toasts s' = toasts s @
           [\<lparr>toast_title =
               (if c then str ''Tarefa conclu'' @ [0xED] @ str ''da!''
                else str ''Tarefa reaberta''),
             toast_description =
               (if c then str ''Parab'' @ [0xE9] @ str ''ns por concluir a tarefa!''
                else str ''Tarefa marcada como pendente.''),
             variant = Default\<rparr>]"
    by (simp add: assms(2) toggleTodo_def raise_toast_def setTodos_def)
  show ?thesis using ex rest by (simp add: td)
qed

theorem toggleTodo_success_witness:
  "str ''a'' \<in> id' ` set (todos both) \<and>
   length (todos (resume (toggleTodo (str ''2024-05-03T08:00:00.000Z'') (todos both)
      (str ''a'') True) (Success ()) both)) = length (todos both) \<and>
   (0::nat) < length (todos both) \<and> id' (todos both ! 0) = str ''a'' \<and>
   todos (resume (toggleTodo (str ''2024-05-03T08:00:00.000Z'') (todos both)
      (str ''a'') True) (Success ()) both) ! 0 = (todos both ! 0)\<lparr>completed := True\<rparr> \<and>
   (1::nat) < length (todos both) \<and> id' (todos both ! 1) \<noteq> str ''a'' \<and>
   todos (resume (toggleTodo (str ''2024-05-03T08:00:00.000Z'') (todos both)
      (str ''a'') True) (Success ()) both) ! 1 = todos both ! 1"
proof -
  have present: "str ''a'' \<in> id' ` set (todos both)"
    by (simp add: both_def milk_def)
  have first: "(0::nat) < length (todos both)" "id' (todos both ! 0) = str ''a''"
    by (simp_all add: both_def milk_def)
  have second: "(1::nat) < length (todos both)" "id' (todos both ! 1) \<noteq> str ''a''"
    by (simp_all add: both_def dog_def str_def)
  from toggleTodo_success [OF present refl, of "str ''2024-05-03T08:00:00.000Z''" True]
    present first second
  show ?thesis by blast
qed

text \<open>
  C8. \<open>toggleTodo\<close> stores the flag it is given: after a successful call every listed task
  with the id has \<open>completed\<close> equal to the argument. The item passes the negation of
  the \<open>completed\<close> it shows, so a successful toggle started from the item of a listed task
  leaves, at that task's position, the task with \<open>completed\<close> negated.
\<close>

theorem handleToggle_negates:
  assumes "k < length (todos s)" and "todos s ! k = t"
  shows "handleToggle (toggleTodo now (todos s)) t =
           toggleTodo now (todos s) (id' t) (\<not> completed t) \<and>
         todos (resume (handleToggle (toggleTodo now (todos s)) t) (Success ()) s) ! k =
           t\<lparr>completed := \<not> completed t\<rparr> \<and>
         (\<forall>t' \<in> set (todos (resume (toggleTodo now (todos s) i c) (Success ()) s)).
            id' t' = i \<longrightarrow> completed t' = c)"
proof -
  have call: "handleToggle (toggleTodo now (todos s)) t =
      toggleTodo now (todos s) (id' t) (\<not> completed t)"
    by (simp add: handleToggle_def)
  have at_k: "todos (resume (handleToggle (toggleTodo now (todos s)) t) (Success ()) s) ! k =
      t\<lparr>completed := \<not> completed t\<rparr>"
    using assms by (simp add: call todos_toggleTodo)
  have as_given: "\<forall>t' \<in> set (todos (resume (toggleTodo now (todos s) i c) (Success ()) s)).
      id' t' = i \<longrightarrow> completed t' = c"
  proof (intro ballI impI)
    fix t'
    assume listed: "t' \<in> set (todos (resume (toggleTodo now (todos s) i c) (Success ()) s))"
      and same_id: "id' t' = i"
    from listed
    have "t' \<in> set (map (\<lambda>t. if id' t = i then t\<lparr>completed := c\<rparr> else t) (todos s))"
      by (simp only: todos_toggleTodo response.case)
    then show "completed t' = c"
      using same_id by (rule patched_completed)
  qed
  show ?thesis using call at_k as_given by blast
qed

theorem handleToggle_negates_witness:
  "(1::nat) < length (todos both) \<and> todos both ! 1 = dog \<and>
   todos (resume (handleToggle (toggleTodo (str ''2024-05-03T08:00:00.000Z'') (todos both)) dog)
      (Success ()) both) ! 1 = dog\<lparr>completed := \<not> completed dog\<rparr> \<and>
   todos (resume (toggleTodo (str ''2024-05-03T08:00:00.000Z'') (todos both) (str ''b'') True)
      (Success ()) both) ! 1
     \<in> set (todos (resume (toggleTodo (str ''2024-05-03T08:00:00.000Z'') (todos both)
          (str ''b'') True) (Success ()) both)) \<and>
   id' (todos (resume (toggleTodo (str ''2024-05-03T08:00:00.000Z'') (todos both) (str ''b'') True)
      (Success ()) both) ! 1) = str ''b'' \<and>
   completed (todos (resume (toggleTodo (str ''2024-05-03T08:00:00.000Z'') (todos both)
      (str ''b'') True) (Success ()) both) ! 1) = True"
proof -
  have pos: "(1::nat) < length (todos both)" and shown: "todos both ! 1 = dog"
    by (simp_all add: both_def)
  have listed:
    "todos (resume (toggleTodo (str ''2024-05-03T08:00:00.000Z'') (todos both) (str ''b'') True)
      (Success ()) both) ! 1
     \<in> set (todos (resume (toggleTodo (str ''2024-05-03T08:00:00.000Z'') (todos both)
          (str ''b'') True) (Success ()) both))"
    by (simp add: todos_toggleTodo both_def)
  have same_id:
    "id' (todos (resume (toggleTodo (str ''2024-05-03T08:00:00.000Z'') (todos both)
       (str ''b'') True) (Success ()) both) ! 1) = str ''b''"
    by (simp add: todos_toggleTodo both_def dog_def)
  from handleToggle_negates [OF pos shown, of "str ''2024-05-03T08:00:00.000Z''" "str ''b''" True]
    pos shown listed same_id
  show ?thesis by blast
qed

section \<open>Ids that are not listed, and deleting\<close>

text \<open>
  C10. For an id that no listed task has, \<open>toggleTodo\<close> and \<open>updateTodo\<close> still issue
  their update request; when it succeeds \<open>todos\<close> is the list it was, and one more
  notification, a normal one, is raised.
\<close>

theorem absent_id_patch:
  assumes "i \<notin> id' ` set (todos s)"
  shows "issued (toggleTodo now (todos s) i c) = Some (Update_completed i c now) \<and>
         issued (updateTodo now (todos s) i ttl descr) =
           Some (Update_text i ttl (or_null descr) now) \<and>
         todos (resume (toggleTodo now (todos s) i c) (Success ()) s) = todos s \<and>
         todos (resume (updateTodo now (todos s) i ttl descr) (Success ()) s) = todos s \<and>
         toasts (resume (toggleTodo now (todos s) i c) (Success ()) s) = toasts s @
           [\<lparr>toast_title =
               (if c then str ''Tarefa conclu'' @ [0xED] @ str ''da!''
                else str ''Tarefa reaberta''),
             toast_description =
               (if c then str ''Parab'' @ [0xE9] @ str ''ns por concluir a tarefa!''
                else str ''Tarefa marcada como pendente.''),
             variant = Default\<rparr>] \<and>
         toasts (resume (updateTodo now (todos s) i ttl descr) (Success ()) s) = toasts s @
           [\<lparr>toast_title = str ''Tarefa atualizada!'',
             toast_description =
               str ''As altera'' @ [0xE7, 0xF5] @ str ''es foram salvas com sucesso.'',
             variant = Default\<rparr>]"
proof -
  have kept: "todos (resume (toggleTodo now (todos s) i c) (Success ()) s) = todos s"
    "todos (resume (updateTodo now (todos s) i ttl descr) (Success ()) s) = todos s"
    using assms by (simp_all add: todos_toggleTodo todos_updateTodo patch_absent)
  have raised: "toasts (resume (toggleTodo now (todos s) i c) (Success ()) s) = toasts s @
           [\<lparr>toast_title =
               (if c then str ''Tarefa conclu'' @ [0xED] @ str ''da!''
                else str ''Tarefa reaberta''),
             toast_description =
               (if c then str ''Parab'' @ [0xE9] @ str ''ns por concluir a tarefa!''
                else str ''Tarefa marcada como pendente.''),
             variant = Default\<rparr>]"
    "toasts (resume (updateTodo now (todos s) i ttl descr) (Success ()) s) = toasts s @
           [\<lparr>toast_title = str ''Tarefa atualizada!'',
             toast_description =
               str ''As altera'' @ [0xE7, 0xF5] @ str ''es foram salvas com sucesso.'',
             variant = Default\<rparr>]"
    by (simp_all add: toggleTodo_def updateTodo_def raise_toast_def setTodos_def)
  have asked: "issued (toggleTodo now (todos s) i c) = Some (Update_completed i c now)"
    "issued (updateTodo now (todos s) i ttl descr) = Some (Update_text i ttl (or_null descr) now)"
    by (simp_all add: toggleTodo_def updateTodo_def)
  from asked kept raised show ?thesis by blast
qed

theorem absent_id_patch_witness:
  "str ''zz'' \<notin> id' ` set (todos both) \<and>
   issued (toggleTodo (str ''2024-05-03T08:00:00.000Z'') (todos both) (str ''zz'') True) =
     Some (Update_completed (str ''zz'') True (str ''2024-05-03T08:00:00.000Z'')) \<and>
   todos (resume (toggleTodo (str ''2024-05-03T08:00:00.000Z'') (todos both) (str ''zz'') True)
      (Success ()) both) = todos both \<and>
   todos (resume (updateTodo (str ''2024-05-03T08:00:00.000Z'') (todos both) (str ''zz'')
      (str ''Feed cat'') []) (Success ()) both) = todos both \<and>
   map variant (toasts (resume (updateTodo (str ''2024-05-03T08:00:00.000Z'') (todos both)
      (str ''zz'') (str ''Feed cat'') []) (Success ()) both)) =
     map variant (toasts both) @ [Default]"
proof -
  have absent: "str ''zz'' \<notin> id' ` set (todos both)"
    by (simp add: both_def milk_def dog_def str_def)
  from absent_id_patch [OF absent, of "str ''2024-05-03T08:00:00.000Z''" True
      "str ''Feed cat''" "[]"] absent
  show ?thesis by simp
qed

text \<open>
  C6. A successful \<open>deleteTodo\<close> leaves the listed tasks whose id differs from the given
  one, in their order: exactly the tasks with that id are gone, which is one task when the
  ids are distinct and the id is listed. For an id that is not listed the list is the same
  after the handler resumes, whatever the response.
\<close>

theorem deleteTodo_removes:
  "todos (resume (deleteTodo (todos s) i) (Success ()) s) =
     filter (\<lambda>t. id' t \<noteq> i) (todos s) \<and>
   (distinct (map id' (todos s)) \<and> i \<in> id' ` set (todos s) \<longrightarrow>
      Suc (length (todos (resume (deleteTodo (todos s) i) (Success ()) s))) =
        length (todos s)) \<and>
   (i \<notin> id' ` set (todos s) \<longrightarrow> todos (resume (deleteTodo (todos s) i) res s) = todos s)"
  by (cases res) (simp_all add: todos_deleteTodo filter_absent filter_distinct_length)

theorem deleteTodo_removes_witness:
  "distinct (map id' (todos both)) \<and> str ''a'' \<in> id' ` set (todos both) \<and>
   todos (resume (deleteTodo (todos both) (str ''a'')) (Success ()) both) =
     filter (\<lambda>t. id' t \<noteq> str ''a'') (todos both) \<and>
   Suc (length (todos (resume (deleteTodo (todos both) (str ''a'')) (Success ()) both))) =
     length (todos both) \<and>
   str ''zz'' \<notin> id' ` set (todos both) \<and>
   todos (resume (deleteTodo (todos both) (str ''zz'')) (Success ()) both) = todos both"
proof -
  have uniq: "distinct (map id' (todos both))"
    by (simp add: both_def milk_def dog_def str_def)
  have present: "str ''a'' \<in> id' ` set (todos both)"
    by (simp add: both_def milk_def)
  have absent: "str ''zz'' \<notin> id' ` set (todos both)"
    by (simp add: both_def milk_def dog_def str_def)
  from deleteTodo_removes [of both "str ''a''"]
    deleteTodo_removes [of both "str ''zz''" "Success ()"] uniq present absent
  show ?thesis by blast
qed

section \<open>Order of the list\<close>

lemma descending_map:
  "(\<And>t. created_at (f t) = created_at t) \<Longrightarrow>
   descending instant (map f ts) = descending instant ts"
  by (simp add: descending_def sorted_wrt_map)

lemma descending_filter: "descending instant ts \<Longrightarrow> descending instant (filter P ts)"
  by (simp add: descending_def sorted_wrt_filter)

lemma descending_Cons:
  "descending instant (row # ts) \<longleftrightarrow>
     list_all (\<lambda>t. instant (created_at t) \<le> instant (created_at row)) ts \<and>
     descending instant ts"
  by (simp add: descending_def list_all_iff)

lemma descending_step:
  assumes "store_ok instant s ev" and "descending instant (todos s)"
  shows "descending instant (todos (step u s ev))"
proof (cases ev)
  case (Load res)
  show ?thesis
  proof (cases res)
    case (Failure e)
    with Load assms show ?thesis
      by (cases u) (simp_all add: todos_load)
  next
    case (Success data)
    with Load assms show ?thesis
      by (cases data; cases u) (simp_all add: todos_load descending_def)
  qed
next
  case (Create ttl descr res)
  with assms show ?thesis
    by (cases res; cases u) (simp_all add: todos_addTodo descending_Cons)
next
  case (Toggle now i c res)
  with assms show ?thesis
    by (cases res) (simp_all add: todos_toggleTodo descending_map)
next
  case (Update now i ttl descr res)
  with assms show ?thesis
    by (cases res) (simp_all add: todos_updateTodo descending_map)
next
  case (Remove i res)
  with assms show ?thesis
    by (cases res) (simp_all add: todos_deleteTodo descending_filter)
qed

lemma descending_run_all:
  "stamped instant u s evs \<Longrightarrow> descending instant (todos s) \<Longrightarrow>
   descending instant (todos (run_all u s evs))"
proof (induction evs arbitrary: s)
  case Nil
  then show ?case by (simp add: run_all_def)
next
  case (Cons ev evs)
  from Cons.prems have "descending instant (todos (step u s ev))"
    by (simp add: descending_step)
  with Cons.prems Cons.IH [of "step u s ev"] show ?case
    by (simp add: run_all_def)
qed

text \<open>
  C2. Starting from an empty list, after any sequence of operations run one after the
  other the list is newest first, provided the store returns the selected rows newest
  first and gives every inserted row a \<open>created_at\<close> at least as late as those listed.
  The steps: loading asks for the rows in descending order and takes them as they come; a
  successful create puts the returned row in front of the list, which is otherwise as it
  was; a successful toggle or update leaves the \<open>created_at\<close> of every position as it
  was; a successful delete leaves a sublist, in order.
\<close>

theorem tasks_stay_descending:
  assumes "todos s0 = []" and "stamped instant u s0 evs"
  shows "descending instant (todos (run_all u s0 evs)) \<and>
         issued (load (Some usr)) = Some Select_desc \<and>
         todos (resume (load (Some usr)) (Success (Some rows)) s) = rows \<and>
         todos (resume (addTodo (Some usr) (todos s) ttl descr) (Success row) s) =
           row # todos s \<and>
         map created_at (todos (resume (toggleTodo now (todos s) i c) (Success ()) s)) =
           map created_at (todos s) \<and>
         map created_at (todos (resume (updateTodo now (todos s) i ttl descr) (Success ()) s)) =
           map created_at (todos s) \<and>
         todos (resume (deleteTodo (todos s) i) (Success ()) s) =
           filter (\<lambda>t. id' t \<noteq> i) (todos s)"
proof -
  have "descending instant (todos s0)"
    by (simp add: assms(1) descending_def)
  with assms(2) have seq: "descending instant (todos (run_all u s0 evs))"
    by (rule descending_run_all)
  have asked: "issued (load (Some usr)) = Some Select_desc"
    by (simp add: load_def fetchTodos_def)
  show ?thesis
    using seq asked
    by (simp add: todos_load todos_addTodo todos_toggleTodo todos_updateTodo todos_deleteTodo
          o_def if_distrib cong: if_cong)
qed

theorem tasks_stay_descending_witness:
  "todos initial = [] \<and>
   stamped (\<lambda>x. x) (Some ana) initial
     [Load (Success (Some [dog])), Create (str ''Buy milk'') (str ''2%'') (Success milk),
      Toggle (str ''2024-05-03T08:00:00.000Z'') (str ''b'') True (Success ()),
      Update (str ''2024-05-03T08:01:00.000Z'') (str ''a'') (str ''Buy oat milk'') [] (Success ()),
      Remove (str ''b'') (Failure \<lparr>message = str ''timeout''\<rparr>),
      Remove (str ''b'') (Success ())] \<and>
   descending (\<lambda>x. x) (todos (run_all (Some ana) initial
     [Load (Success (Some [dog])), Create (str ''Buy milk'') (str ''2%'') (Success milk),
      Toggle (str ''2024-05-03T08:00:00.000Z'') (str ''b'') True (Success ()),
      Update (str ''2024-05-03T08:01:00.000Z'') (str ''a'') (str ''Buy oat milk'') [] (Success ()),
      Remove (str ''b'') (Failure \<lparr>message = str ''timeout''\<rparr>),
      Remove (str ''b'') (Success ())]))"
proof -
  have empty: "todos initial = []"
    by (simp add: initial_def)
  have store: "stamped (\<lambda>x. x) (Some ana) initial
     [Load (Success (Some [dog])), Create (str ''Buy milk'') (str ''2%'') (Success milk),
      Toggle (str ''2024-05-03T08:00:00.000Z'') (str ''b'') True (Success ()),
      Update (str ''2024-05-03T08:01:00.000Z'') (str ''a'') (str ''Buy oat milk'') [] (Success ()),
      Remove (str ''b'') (Failure \<lparr>message = str ''timeout''\<rparr>),
      Remove (str ''b'') (Success ())]"
    by (simp add: initial_def descending_def load_def fetchTodos_def addTodo_def toggleTodo_def
          updateTodo_def deleteTodo_def raise_toast_def setTodos_def setLoading_def
          ana_def milk_def dog_def str_def)
  from tasks_stay_descending [OF empty store] empty store
  show ?thesis by blast
qed

section \<open>Titles and descriptions on the way to the store\<close>

lemma trim_Nil: "trim [] = []"
  by (simp add: trim_def)

text \<open>
  C5, as the code has it. The form and the item test the trimmed title and pass the typed
  one: when the trimmed title is empty neither calls its handler, so no request is issued;
  otherwise the typed title is non-empty and is handed unchanged to \<open>addTodo\<close> or
  \<open>updateTodo\<close>, whose request carries it as it was typed.
\<close>

theorem callers_reject_blank_titles:
  "(trim ttl = [] \<longrightarrow>
      handleSubmit (addTodo u captured) ttl descr = None \<and>
      handleSaveEdit (updateTodo now captured) t ttl descr = None) \<and>
   (trim ttl \<noteq> [] \<longrightarrow>
      ttl \<noteq> [] \<and>
      handleSubmit (addTodo u captured) ttl descr = Some (addTodo u captured ttl descr) \<and>
      handleSaveEdit (updateTodo now captured) t ttl descr =
        Some (updateTodo now captured (id' t) ttl descr) \<and>
      issued (addTodo (Some usr) captured ttl descr) =
        Some (Insert (user_id usr) ttl (or_null descr)) \<and>
      issued (updateTodo now captured (id' t) ttl descr) =
        Some (Update_text (id' t) ttl (or_null descr) now))"
  by (auto simp add: handleSubmit_def handleSaveEdit_def addTodo_def updateTodo_def trim_Nil)

theorem callers_reject_blank_titles_witness:
  "trim (str ''  '') = [] \<and>
   handleSubmit (addTodo (Some ana) [dog]) (str ''  '') (str ''2%'') = None \<and>
   handleSaveEdit (updateTodo (str ''2024-05-03T08:00:00.000Z'') [dog]) dog (str ''  '')
     (str ''2%'') = None \<and>
   trim (str ''Buy milk '') \<noteq> [] \<and>
   handleSubmit (addTodo (Some ana) [dog]) (str ''Buy milk '') (str ''2%'') =
     Some (addTodo (Some ana) [dog] (str ''Buy milk '') (str ''2%'')) \<and>
   issued (addTodo (Some ana) [dog] (str ''Buy milk '') (str ''2%'')) =
     Some (Insert (user_id ana) (str ''Buy milk '') (or_null (str ''2%'')))"
proof -
  have blank: "trim (str ''  '') = []"
    by (simp add: trim_def str_def is_white_space_def)
  have typed: "trim (str ''Buy milk '') \<noteq> []"
    by (simp add: trim_def str_def is_white_space_def)
  from blank typed
    callers_reject_blank_titles [of "str ''  ''" "Some ana" "[dog]" "str ''2%''"
      "str ''2024-05-03T08:00:00.000Z''" dog]
    callers_reject_blank_titles [of "str ''Buy milk ''" "Some ana" "[dog]" "str ''2%''" _ _ ana]
  show ?thesis by simp
qed

text \<open>
  C5, as the claim has it, fails: the title typed as " a " reaches the insert as " a ",
  while its trim is "a".
\<close>

theorem handleSubmit_passes_untrimmed:
  "map_option issued (handleSubmit (addTodo (Some ana) []) (str '' a '') []) =
     Some (Some (Insert (str ''u1'') (str '' a '') None)) \<and>
   trim (str '' a '') = str ''a'' \<and>
   str '' a '' \<noteq> trim (str '' a '')"
  by (simp add: handleSubmit_def addTodo_def or_null_def ana_def trim_def is_white_space_def
        str_def)

text \<open>
  C4. Updating the task "a" with the empty description and a successful response: the
  request carries no description (\<open>None\<close>), and the listed task ends with the empty
  string as its description (\<open>Some []\<close>), not with \<open>None\<close>.
\<close>

theorem updateTodo_keeps_empty_string:
  "issued (updateTodo (str ''2024-05-03T08:00:00.000Z'') [milk, dog] (str ''a'')
      (str ''Buy milk'') []) =
     Some (Update_text (str ''a'') (str ''Buy milk'') None (str ''2024-05-03T08:00:00.000Z'')) \<and>
   todos (resume (updateTodo (str ''2024-05-03T08:00:00.000Z'') [milk, dog] (str ''a'')
      (str ''Buy milk'') []) (Success ()) both) =
     [milk\<lparr>description := Some []\<rparr>, dog] \<and>
   description (milk\<lparr>description := Some []\<rparr>) \<noteq> None"
  by (simp add: updateTodo_def raise_toast_def setTodos_def or_null_def both_def milk_def
        dog_def str_def)

section \<open>Two handlers in flight\<close>

lemma patch_patch:
  assumes "i \<noteq> j" and "\<And>t. id' (f t) = id' t" and "\<And>t. id' (g t) = id' t"
  shows "map (\<lambda>t. if id' t = j then g t else t) (map (\<lambda>t. if id' t = i then f t else t) ts) =
         map (\<lambda>t. if id' t = i then f t else t) (map (\<lambda>t. if id' t = j then g t else t) ts)"
  using assms by (induction ts) auto

lemma filter_patch:
  assumes "i \<noteq> j" and "\<And>t. id' (f t) = id' t"
  shows "filter (\<lambda>t. id' t \<noteq> j) (map (\<lambda>t. if id' t = i then f t else t) ts) =
         map (\<lambda>t. if id' t = i then f t else t) (filter (\<lambda>t. id' t \<noteq> j) ts)"
  using assms by (induction ts) auto

text \<open>
  Run one after the other, each from the render that follows the previous response, two
  successful operations on different ids give the same list in either order.
\<close>

lemma sequential_patches_commute:
  assumes "i \<noteq> j"
  shows "todos (run_all u s [Toggle n1 i c (Success ()), Toggle n2 j d (Success ())]) =
         todos (run_all u s [Toggle n2 j d (Success ()), Toggle n1 i c (Success ())])"
    and "todos (run_all u s [Toggle n1 i c (Success ()), Update n2 j ttl descr (Success ())]) =
         todos (run_all u s [Update n2 j ttl descr (Success ()), Toggle n1 i c (Success ())])"
    and "todos (run_all u s [Toggle n1 i c (Success ()), Remove j (Success ())]) =
         todos (run_all u s [Remove j (Success ()), Toggle n1 i c (Success ())])"
    and "todos (run_all u s
           [Update n1 i ttl descr (Success ()), Update n2 j ttl' descr' (Success ())]) =
         todos (run_all u s
           [Update n2 j ttl' descr' (Success ()), Update n1 i ttl descr (Success ())])"
    and "todos (run_all u s [Update n1 i ttl descr (Success ()), Remove j (Success ())]) =
         todos (run_all u s [Remove j (Success ()), Update n1 i ttl descr (Success ())])"
    and "todos (run_all u s [Remove i (Success ()), Remove j (Success ())]) =
         todos (run_all u s [Remove j (Success ()), Remove i (Success ())])"
proof -
  note run = run_all_def todos_toggleTodo todos_updateTodo todos_deleteTodo
  show "todos (run_all u s [Toggle n1 i c (Success ()), Toggle n2 j d (Success ())]) =
         todos (run_all u s [Toggle n2 j d (Success ()), Toggle n1 i c (Success ())])"
    using patch_patch [OF assms, of "\<lambda>t. t\<lparr>completed := c\<rparr>" "\<lambda>t. t\<lparr>completed := d\<rparr>"
        "todos s"]
    by (simp add: run)
  show "todos (run_all u s [Toggle n1 i c (Success ()), Update n2 j ttl descr (Success ())]) =
         todos (run_all u s [Update n2 j ttl descr (Success ()), Toggle n1 i c (Success ())])"
    using patch_patch [OF assms, of "\<lambda>t. t\<lparr>completed := c\<rparr>"
        "\<lambda>t. t\<lparr>title := ttl, description := Some descr\<rparr>" "todos s"]
    by (simp add: run)
  show "todos (run_all u s [Toggle n1 i c (Success ()), Remove j (Success ())]) =
         todos (run_all u s [Remove j (Success ()), Toggle n1 i c (Success ())])"
    using filter_patch [OF assms, of "\<lambda>t. t\<lparr>completed := c\<rparr>" "todos s"]
    by (simp add: run)
  show "todos (run_all u s
           [Update n1 i ttl descr (Success ()), Update n2 j ttl' descr' (Success ())]) =
         todos (run_all u s
           [Update n2 j ttl' descr' (Success ()), Update n1 i ttl descr (Success ())])"
    using patch_patch [OF assms, of "\<lambda>t. t\<lparr>title := ttl, description := Some descr\<rparr>"
        "\<lambda>t. t\<lparr>title := ttl', description := Some descr'\<rparr>" "todos s"]
    by (simp add: run)
  show "todos (run_all u s [Update n1 i ttl descr (Success ()), Remove j (Success ())]) =
         todos (run_all u s [Remove j (Success ()), Update n1 i ttl descr (Success ())])"
    using filter_patch [OF assms, of "\<lambda>t. t\<lparr>title := ttl, description := Some descr\<rparr>"
        "todos s"]
    by (simp add: run)
  show "todos (run_all u s [Remove i (Success ()), Remove j (Success ())]) =
         todos (run_all u s [Remove j (Success ()), Remove i (Success ())])"
    by (simp add: run conj_commute)
qed

text \<open>
  C9. Two toggles of different tasks, both started from the render that lists \<open>milk\<close> and
  \<open>dog\<close> unfinished, both successful. Each continuation writes its patch of the list it
  captured, so the one that resumes last decides: in one order only \<open>dog\<close> ends completed,
  in the other only \<open>milk\<close>, and the two results differ.
\<close>

theorem toggles_in_flight_overwrite:
  "todos (resume (toggleTodo (str ''2024-05-03T08:00:01.000Z'') [milk, dog] (str ''b'') True)
      (Success ())
      (resume (toggleTodo (str ''2024-05-03T08:00:00.000Z'') [milk, dog] (str ''a'') True)
         (Success ()) both)) =
     [milk, dog\<lparr>completed := True\<rparr>] \<and>
   todos (resume (toggleTodo (str ''2024-05-03T08:00:00.000Z'') [milk, dog] (str ''a'') True)
      (Success ())
      (resume (toggleTodo (str ''2024-05-03T08:00:01.000Z'') [milk, dog] (str ''b'') True)
         (Success ()) both)) =
     [milk\<lparr>completed := True\<rparr>, dog] \<and>
   [milk, dog\<lparr>completed := True\<rparr>] \<noteq> [milk\<lparr>completed := True\<rparr>, dog]"
  by (simp add: toggleTodo_def raise_toast_def setTodos_def both_def milk_def dog_def str_def)

end
